theory Spec2Isabelle
  imports Main "HOL-Library.Sublist"
begin

section \<open>The review-board script \<^verbatim>\<open>ready-for-docs-review.js\<close>\<close>

text \<open>
  The script is one asynchronous function \<^verbatim>\<open>run\<close> that awaits a sequence of boundary
  calls (graph queries, mutations, membership lookups) and derives a handful of values in
  between. The model threads the list of events the process has produced so far through
  the function; a rejected promise or a thrown exception is the value \<open>Inl\<close>, which
  skips every later statement up to the \<^verbatim>\<open>catch\<close> at the bottom of the file.
\<close>

subsection \<open>Data\<close>

text \<open>What a rejected promise or a throw carries.\<close>

datatype error =
  RequestError string
| LookupError string
| TypeError string

text \<open>
  The answer to the first query (lines 14-60). A node of \<^verbatim>\<open>fields\<close> is a plain field,
  a single-select field with its options, or, for any other kind of field, the empty
  object, since the query selects nothing from it.
\<close>

record select_option =
  option_id :: string
  option_name :: string

datatype field_node =
  ProjectV2Field string string
| ProjectV2SingleSelectField string string "select_option list"
| OtherFieldNode

record file_node =
  additions :: int
  deletions :: int
  path :: string

text \<open>\<open>files_nodes\<close> is read only when \<open>typename\<close> is \<^verbatim>\<open>PullRequest\<close>.\<close>

record item_node =
  typename :: string
  files_nodes :: "file_node list"

record board_data =
  projectV2_id :: string
  fields_nodes :: "field_node list"
  item :: item_node

text \<open>The answer to the contribution query (lines 129-160); \<open>user\<close> may be null.\<close>

record contribution =
  totalCount :: int
  nameWithOwner :: string

record contributions_collection =
  pullRequestContributionsByRepository :: "contribution list"
  issueContributionsByRepository :: "contribution list"

record contributor_data =
  user :: "contributions_collection option"

text \<open>\<^verbatim>\<open>process.env\<close>: a variable that is not set reads as \<^verbatim>\<open>undefined\<close>, here \<open>None\<close>.\<close>

record env =
  ITEM_NODE_ID :: "string option"
  ORGANIZATION :: "string option"
  PROJECT_NUMBER :: "string option"
  TOKEN :: "string option"
  REPO :: "string option"
  AUTHOR_LOGIN :: "string option"

text \<open>The identifiers resolved at lines 63-82, under the names of the script's constants.\<close>

record ids =
  projectID :: string
  datePostedID :: string
  reviewDueDateID :: string
  statusID :: string
  featureID :: string
  contributorTypeID :: string
  sizeTypeID :: string
  authorID :: string
  readyForReviewID :: string
  hubberTypeID :: string
  docsMemberTypeID :: string
  osContributorTypeID :: string
  sizeXS :: string
  sizeS :: string
  sizeM :: string
  sizeL :: string

text \<open>
  Modelled from the spec: the mutation document that
  \<^verbatim>\<open>generateUpdateProjectV2ItemFieldMutation\<close> returns; the generator lives in
  \<^verbatim>\<open>projects.js\<close>, which is not among the sources. The document is kept as the four
  values the script hands to the generator (lines 179-184) together with the two dates
  section 4.7 says the request sets: date posted is now, review due date is now plus
  turnaround days. Time is counted in days.
\<close>

record update_mutation =
  m_item :: string
  m_author :: "string option"
  m_turnaround :: nat
  m_feature :: string
  m_datePosted :: nat
  m_reviewDueDate :: nat

text \<open>The variables of the final request (lines 201-216).\<close>

record update_vars =
  v_project :: string
  v_statusID :: string
  v_statusValueID :: string
  v_datePostedID :: string
  v_reviewDueDateID :: string
  v_contributorTypeID :: string
  v_contributorType :: string
  v_sizeTypeID :: string
  v_sizeType :: string
  v_featureID :: string
  v_authorID :: string

text \<open>
  What the process does that is visible from outside, in order: the boundary calls it
  awaits and the lines it prints. The project number is kept as the text of the
  environment variable (the script passes \<^verbatim>\<open>parseInt\<close> of it); the authorization header is
  left out.
\<close>

datatype event =
  GraphqlBoardQuery "string option" "string option" "string option"
| AddItemToProject "string option" string
| GraphqlContributorQuery "string option"
| IsDocsTeamMember "string option"
| IsGitHubOrgMember "string option"
| GraphqlUpdate update_mutation update_vars
| ConsoleLog string
| ConsoleError error

text \<open>The boundary a call crosses; the two kinds of printed line cross none.\<close>

datatype boundary =
  BoardQuery | AddItem | ContributorQuery | DocsTeamLookup | OrgMemberLookup | UpdateFields

fun boundary_of :: "event \<Rightarrow> boundary option" where
  "boundary_of (GraphqlBoardQuery _ _ _) = Some BoardQuery"
| "boundary_of (AddItemToProject _ _) = Some AddItem"
| "boundary_of (GraphqlContributorQuery _) = Some ContributorQuery"
| "boundary_of (IsDocsTeamMember _) = Some DocsTeamLookup"
| "boundary_of (IsGitHubOrgMember _) = Some OrgMemberLookup"
| "boundary_of (GraphqlUpdate _ _) = Some UpdateFields"
| "boundary_of (ConsoleLog _) = None"
| "boundary_of (ConsoleError _) = None"

text \<open>
  Modelled from the spec: \<^verbatim>\<open>addItemToProject\<close>, \<^verbatim>\<open>isDocsTeamMember\<close> and
  \<^verbatim>\<open>isGitHubOrgMember\<close> are imported from \<^verbatim>\<open>projects.js\<close>, which is not among the
  sources; section 6 gives them as boundary calls (item node id and project id to the new
  project-item id; a login to a truth value), each of which may fail. They are taken, like
  the three graph requests of the script itself, as parameters: the outside world is what
  each boundary call answers, and the day the clock shows.
\<close>

record world =
  board_answer :: "string option \<Rightarrow> string option \<Rightarrow> string option \<Rightarrow> error + board_data"
  add_item_answer :: "string option \<Rightarrow> string \<Rightarrow> error + string"
  contributor_answer :: "string option \<Rightarrow> error + contributor_data"
  docs_team_answer :: "string option \<Rightarrow> error + bool"
  org_member_answer :: "string option \<Rightarrow> error + bool"
  update_answer :: "update_mutation \<Rightarrow> update_vars \<Rightarrow> error + unit"
  now :: nat

subsection \<open>Sequencing awaited calls\<close>

type_synonym 'a act = "event list \<Rightarrow> event list \<times> (error + 'a)"

definition pureA :: "error + 'a \<Rightarrow> 'a act" where
  "pureA r = (\<lambda>t. (t, r))"

definition await :: "event \<Rightarrow> error + 'a \<Rightarrow> 'a act" where
  "await c r = (\<lambda>t. (t @ [c], r))"

definition console_log :: "string \<Rightarrow> unit act" where
  "console_log s = (\<lambda>t. (t @ [ConsoleLog s], Inr ()))"

definition thenA :: "'a act \<Rightarrow> ('a \<Rightarrow> 'b act) \<Rightarrow> 'b act" where
  "thenA m f = (\<lambda>t. case m t of (t', Inl e) \<Rightarrow> (t', Inl e) | (t', Inr x) \<Rightarrow> f x t')"

definition thenR :: "error + 'a \<Rightarrow> ('a \<Rightarrow> error + 'b) \<Rightarrow> error + 'b" where
  "thenR r f = (case r of Inl e \<Rightarrow> Inl e | Inr x \<Rightarrow> f x)"

subsection \<open>Field and option lookup\<close>

fun node_name :: "field_node \<Rightarrow> string option" where
  "node_name (ProjectV2Field i n) = Some n"
| "node_name (ProjectV2SingleSelectField i n os) = Some n"
| "node_name OtherFieldNode = None"

fun node_options :: "field_node \<Rightarrow> select_option list" where
  "node_options (ProjectV2SingleSelectField i n os) = os"
| "node_options _ = []"

text \<open>
  Modelled from the spec: \<^verbatim>\<open>findFieldID\<close> is imported from \<^verbatim>\<open>projects.js\<close>, which is not
  among the sources. Section 4.2: it returns the identifier of the field whose name
  exactly matches the given name among the fetched field list, and signals failure when
  no match is found.
\<close>

definition findFieldID :: "string \<Rightarrow> board_data \<Rightarrow> error + string" where
  "findFieldID fieldName data =
     (case find (\<lambda>f. node_name f = Some fieldName) (fields_nodes data) of
        Some (ProjectV2Field i n) \<Rightarrow> Inr i
      | Some (ProjectV2SingleSelectField i n os) \<Rightarrow> Inr i
      | _ \<Rightarrow> Inl (LookupError fieldName))"

text \<open>
  Modelled from the spec: \<^verbatim>\<open>findSingleSelectID\<close> is imported from \<^verbatim>\<open>projects.js\<close>, which
  is not among the sources. Section 4.2: it first locates the field by name, then returns
  the identifier of the option whose name exactly matches the option name, and signals
  failure when no match is found.
\<close>

definition findSingleSelectID :: "string \<Rightarrow> string \<Rightarrow> board_data \<Rightarrow> error + string" where
  "findSingleSelectID singleSelectName fieldName data =
     (case find (\<lambda>f. node_name f = Some fieldName) (fields_nodes data) of
        None \<Rightarrow> Inl (LookupError fieldName)
      | Some f \<Rightarrow>
          (case find (\<lambda>opt. option_name opt = singleSelectName) (node_options f) of
             None \<Rightarrow> Inl (LookupError singleSelectName)
           | Some opt \<Rightarrow> Inr (option_id opt)))"

text \<open>Lines 63-82: fifteen lookups in the order of the script; the first failure throws.\<close>

definition lookup_ids :: "board_data \<Rightarrow> error + ids" where
  "lookup_ids data =
     thenR (findFieldID ''Date posted'' data) (\<lambda>datePosted.
     thenR (findFieldID ''Review due date'' data) (\<lambda>reviewDueDate.
     thenR (findFieldID ''Status'' data) (\<lambda>status.
     thenR (findFieldID ''Feature'' data) (\<lambda>feature.
     thenR (findFieldID ''Contributor type'' data) (\<lambda>contributorType.
     thenR (findFieldID ''Size'' data) (\<lambda>sizeType.
     thenR (findFieldID ''Contributor'' data) (\<lambda>author.
     thenR (findSingleSelectID ''Ready for review'' ''Status'' data) (\<lambda>readyForReview.
     thenR (findSingleSelectID ''Hubber or partner'' ''Contributor type'' data) (\<lambda>hubberType.
     thenR (findSingleSelectID ''Docs team'' ''Contributor type'' data) (\<lambda>docsMemberType.
     thenR (findSingleSelectID ''OS contributor'' ''Contributor type'' data) (\<lambda>osContributorType.
     thenR (findSingleSelectID ''XS'' ''Size'' data) (\<lambda>xs.
     thenR (findSingleSelectID ''S'' ''Size'' data) (\<lambda>s.
     thenR (findSingleSelectID ''M'' ''Size'' data) (\<lambda>m.
     thenR (findSingleSelectID ''L'' ''Size'' data) (\<lambda>l.
       Inr \<lparr> projectID = projectV2_id data,
             datePostedID = datePosted, reviewDueDateID = reviewDueDate, statusID = status,
             featureID = feature, contributorTypeID = contributorType, sizeTypeID = sizeType,
             authorID = author, readyForReviewID = readyForReview, hubberTypeID = hubberType,
             docsMemberTypeID = docsMemberType, osContributorTypeID = osContributorType,
             sizeXS = xs, sizeS = s, sizeM = m, sizeL = l \<rparr>)))))))))))))))"

text \<open>The names those fifteen lookups ask for: fields, and options with their field.\<close>

definition required_fields :: "string list" where
  "required_fields =
     [''Date posted'', ''Review due date'', ''Status'', ''Feature'', ''Contributor type'',
      ''Size'', ''Contributor'']"

definition required_options :: "(string \<times> string) list" where
  "required_options =
     [(''Ready for review'', ''Status''),
      (''Hubber or partner'', ''Contributor type''),
      (''Docs team'', ''Contributor type''),
      (''OS contributor'', ''Contributor type''),
      (''XS'', ''Size''), (''S'', ''Size''), (''M'', ''Size''), (''L'', ''Size'')]"

subsection \<open>Size and feature of a pull request\<close>

text \<open>\<^verbatim>\<open>String.prototype.split\<close> with a one-character separator: never an empty array.\<close>

fun split :: "char \<Rightarrow> string \<Rightarrow> string list" where
  "split sep [] = [[]]"
| "split sep (c # cs) =
     (if c = sep then [] # split sep cs
      else (case split sep cs of
              [] \<Rightarrow> [[c]]
            | w # ws \<Rightarrow> (c # w) # ws))"

text \<open>An array read by index: \<^verbatim>\<open>undefined\<close> past the end.\<close>

definition at_index :: "'a list \<Rightarrow> nat \<Rightarrow> 'a option" where
  "at_index xs i = (if i < length xs then Some (xs ! i) else None)"

text \<open>
  A \<^verbatim>\<open>Set\<close> keeps its members in insertion order, and \<^verbatim>\<open>add\<close> of a member leaves it as
  it is. The members here are strings or \<^verbatim>\<open>undefined\<close>.
\<close>

definition set_add :: "'a \<Rightarrow> 'a list \<Rightarrow> 'a list" where
  "set_add x s = (if x \<in> set s then s else s @ [x])"

text \<open>\<^verbatim>\<open>Array.prototype.join\<close> with the default separator; \<^verbatim>\<open>undefined\<close> is rendered empty.\<close>

fun render :: "string option \<Rightarrow> string" where
  "render None = []"
| "render (Some s) = s"

fun join :: "string option list \<Rightarrow> string" where
  "join [] = []"
| "join [x] = render x"
| "join (x # y # ys) = render x @ '','' @ join (y # ys)"

text \<open>The three variables the \<^verbatim>\<open>forEach\<close> callback updates (lines 95-108).\<close>

record tally =
  numFiles :: nat
  numChanges :: int
  features :: "string option list"

definition visit :: "file_node \<Rightarrow> tally \<Rightarrow> tally" where
  "visit node t =
     (let pathComponents = split CHR ''/'' (path node) in
      \<lparr> numFiles = numFiles t + 1,
        numChanges = numChanges t + additions node + deletions node,
        features = (if at_index pathComponents 0 = Some ''content''
                    then set_add (at_index pathComponents 1) (features t)
                    else features t) \<rparr>)"

definition forEach_files :: "file_node list \<Rightarrow> tally" where
  "forEach_files nodes = fold visit nodes \<lparr> numFiles = 0, numChanges = 0, features = [] \<rparr>"

text \<open>
  Lines 111-119. Each branch assigns one of the four constants \<^verbatim>\<open>sizeXS\<close>, \<^verbatim>\<open>sizeS\<close>,
  \<^verbatim>\<open>sizeM\<close>, \<^verbatim>\<open>sizeL\<close>; the branch taken is named by a \<open>size_category\<close>, and
  \<open>size_id\<close> reads the constant of that name.
\<close>

datatype size_category = XS | S | M | L

fun size_id :: "ids \<Rightarrow> size_category \<Rightarrow> string" where
  "size_id i XS = sizeXS i"
| "size_id i S = sizeS i"
| "size_id i M = sizeM i"
| "size_id i L = sizeL i"

definition determine_size :: "nat \<Rightarrow> int \<Rightarrow> size_category" where
  "determine_size nFiles nChanges =
     (if nFiles < 5 \<and> nChanges < 10 then XS
      else if nFiles < 10 \<and> nChanges < 50 then S
      else if nFiles < 10 \<and> nChanges < 250 then M
      else L)"

text \<open>
  Lines 88-123: the pair \<open>(feature, sizeType)\<close> after the conditional. Both variables
  are initialised first (the empty string, and \<^verbatim>\<open>sizeS\<close> in case the item is an issue) and
  overwritten only for a pull request.
\<close>

definition feature_and_size :: "ids \<Rightarrow> item_node \<Rightarrow> string \<times> string" where
  "feature_and_size i it =
     (if typename it = ''PullRequest'' then
        (let t = forEach_files (files_nodes it) in
         (join (features t), size_id i (determine_size (numFiles t) (numChanges t))))
      else ([], size_id i S))"

subsection \<open>First-time contributors\<close>

text \<open>\<^verbatim>\<open>filter(...)[0]\<close> and the conditional on it (lines 161-171).\<close>

definition docs_count :: "contribution list \<Rightarrow> int" where
  "docs_count entries =
     (case at_index (filter (\<lambda>entry. nameWithOwner entry = ''github/docs'') entries) 0 of
        Some docsData \<Rightarrow> totalCount docsData
      | None \<Rightarrow> 0)"

text \<open>Lines 161-175, once the answer is there; a null \<open>user\<close> is a \<^verbatim>\<open>TypeError\<close>.\<close>

definition first_time :: "contributor_data \<Rightarrow> error + bool" where
  "first_time contributorData =
     (case user contributorData of
        None \<Rightarrow> Inl (TypeError ''contributionsCollection'')
      | Some c \<Rightarrow>
          (let prCount = docs_count (pullRequestContributionsByRepository c);
               issueCount = docs_count (issueContributionsByRepository c)
           in Inr (prCount + issueCount \<le> 1)))"

text \<open>Lines 127-176: \<^verbatim>\<open>firstTimeContributor\<close> stays undefined (falsy) in any other repository.\<close>

definition firstTimeContributor :: "world \<Rightarrow> env \<Rightarrow> bool act" where
  "firstTimeContributor w e =
     (if REPO e = Some ''github/docs'' then
        thenA (await (GraphqlContributorQuery (AUTHOR_LOGIN e))
                 (contributor_answer w (AUTHOR_LOGIN e)))
          (\<lambda>contributorData. pureA (first_time contributorData))
      else pureA (Inr False))"

subsection \<open>The update\<close>

text \<open>
  Modelled from the spec: \<^verbatim>\<open>generateUpdateProjectV2ItemFieldMutation\<close> is imported from
  \<^verbatim>\<open>projects.js\<close>, which is not among the sources. Section 4.7: the request it generates
  sets, on the given item, date posted to now, review due date to now plus turnaround
  days, feature to the feature string and contributor to the author label (and status,
  contributor type and size to the options passed as variables).
\<close>

definition generateUpdateProjectV2ItemFieldMutation ::
    "nat \<Rightarrow> string \<Rightarrow> string option \<Rightarrow> nat \<Rightarrow> string \<Rightarrow> update_mutation" where
  "generateUpdateProjectV2ItemFieldMutation today newItem author turnaround feature =
     \<lparr> m_item = newItem, m_author = author, m_turnaround = turnaround, m_feature = feature,
       m_datePosted = today, m_reviewDueDate = today + turnaround \<rparr>"

text \<open>Lines 187-197.\<close>

definition contributor_type :: "world \<Rightarrow> env \<Rightarrow> ids \<Rightarrow> string act" where
  "contributor_type w e i =
     thenA (await (IsDocsTeamMember (AUTHOR_LOGIN e)) (docs_team_answer w (AUTHOR_LOGIN e)))
       (\<lambda>docsTeam.
          if docsTeam then pureA (Inr (docsMemberTypeID i))
          else
            thenA (await (IsGitHubOrgMember (AUTHOR_LOGIN e))
                     (org_member_answer w (AUTHOR_LOGIN e)))
              (\<lambda>orgMember.
                 if orgMember then pureA (Inr (hubberTypeID i))
                 else if REPO e = Some ''github/docs'' then pureA (Inr (osContributorTypeID i))
                 else pureA (Inr (hubberTypeID i))))"

definition variables :: "ids \<Rightarrow> string \<Rightarrow> string \<Rightarrow> update_vars" where
  "variables i contributorType sizeType =
     \<lparr> v_project = projectID i,
       v_statusID = statusID i,
       v_statusValueID = readyForReviewID i,
       v_datePostedID = datePostedID i,
       v_reviewDueDateID = reviewDueDateID i,
       v_contributorTypeID = contributorTypeID i,
       v_contributorType = contributorType,
       v_sizeTypeID = sizeTypeID i,
       v_sizeType = sizeType,
       v_featureID = featureID i,
       v_authorID = authorID i \<rparr>"

subsection \<open>The script\<close>

text \<open>Lines 84-219, from the new project item on.\<close>

definition populate :: "world \<Rightarrow> env \<Rightarrow> board_data \<Rightarrow> ids \<Rightarrow> string \<Rightarrow> string act" where
  "populate w e data i newItemID =
     (let (feature, sizeType) = feature_and_size i (item data) in
      thenA (firstTimeContributor w e) (\<lambda>firstTime.
        let turnaround = (if REPO e = Some ''github/docs'' then 3 else 2);
            updateProjectV2ItemMutation =
              generateUpdateProjectV2ItemFieldMutation (now w) newItemID
                (if firstTime then Some ''first time contributor'' else AUTHOR_LOGIN e)
                turnaround feature
        in
        thenA (contributor_type w e i) (\<lambda>contributorType.
        thenA (console_log (''Populating fields for item: '' @ newItemID)) (\<lambda>_.
        thenA (await (GraphqlUpdate updateProjectV2ItemMutation
                        (variables i contributorType sizeType))
                 (update_answer w updateProjectV2ItemMutation
                    (variables i contributorType sizeType))) (\<lambda>_.
        thenA (console_log ''Done populating fields for item'') (\<lambda>_.
        pureA (Inr newItemID)))))))"

definition run :: "world \<Rightarrow> env \<Rightarrow> string act" where
  "run w e =
     thenA (await (GraphqlBoardQuery (ITEM_NODE_ID e) (ORGANIZATION e) (PROJECT_NUMBER e))
              (board_answer w (ITEM_NODE_ID e) (ORGANIZATION e) (PROJECT_NUMBER e)))
       (\<lambda>data.
     thenA (pureA (lookup_ids data)) (\<lambda>i.
     thenA (await (AddItemToProject (ITEM_NODE_ID e) (projectID i))
              (add_item_answer w (ITEM_NODE_ID e) (projectID i))) (\<lambda>newItemID.
     populate w e data i newItemID)))"

text \<open>
  Lines 222-225: the process as a whole, from an empty history: the events it produced
  and its exit status. A failure is printed and the process exits with status 1.
\<close>

definition main :: "world \<Rightarrow> env \<Rightarrow> event list \<times> nat" where
  "main w e =
     (case run w e [] of
        (t, Inl err) \<Rightarrow> (t @ [ConsoleError err], 1)
      | (t, Inr newItemID) \<Rightarrow> (t, 0))"

subsection \<open>A sample board\<close>

text \<open>
  A board with the seven fields and eight options the script looks up (and one field of
  another kind), an environment, and an outside world in which every boundary call
  succeeds. The properties below are exercised on them.
\<close>

definition sample_fields :: "field_node list" where
  "sample_fields =
     [ProjectV2Field ''F1'' ''Date posted'',
      ProjectV2Field ''F2'' ''Review due date'',
      ProjectV2SingleSelectField ''F3'' ''Status''
        [\<lparr>option_id = ''O1'', option_name = ''Ready for review''\<rparr>],
      ProjectV2Field ''F4'' ''Feature'',
      ProjectV2SingleSelectField ''F5'' ''Contributor type''
        [\<lparr>option_id = ''O2'', option_name = ''Hubber or partner''\<rparr>,
         \<lparr>option_id = ''O3'', option_name = ''Docs team''\<rparr>,
         \<lparr>option_id = ''O4'', option_name = ''OS contributor''\<rparr>],
      ProjectV2SingleSelectField ''F6'' ''Size''
        [\<lparr>option_id = ''O5'', option_name = ''XS''\<rparr>,
         \<lparr>option_id = ''O6'', option_name = ''S''\<rparr>,
         \<lparr>option_id = ''O7'', option_name = ''M''\<rparr>,
         \<lparr>option_id = ''O8'', option_name = ''L''\<rparr>],
      OtherFieldNode,
      ProjectV2Field ''F7'' ''Contributor'']"

definition sample_board :: "item_node \<Rightarrow> board_data" where
  "sample_board it = \<lparr>projectV2_id = ''P1'', fields_nodes = sample_fields, item = it\<rparr>"

definition sample_ids :: ids where
  "sample_ids =
     \<lparr> projectID = ''P1'', datePostedID = ''F1'', reviewDueDateID = ''F2'', statusID = ''F3'',
       featureID = ''F4'', contributorTypeID = ''F5'', sizeTypeID = ''F6'', authorID = ''F7'',
       readyForReviewID = ''O1'', hubberTypeID = ''O2'', docsMemberTypeID = ''O3'',
       osContributorTypeID = ''O4'', sizeXS = ''O5'', sizeS = ''O6'', sizeM = ''O7'',
       sizeL = ''O8'' \<rparr>"

definition sample_env :: "string option \<Rightarrow> env" where
  "sample_env repo =
     \<lparr> ITEM_NODE_ID = Some ''I1'', ORGANIZATION = Some ''github'',
       PROJECT_NUMBER = Some ''2936'', TOKEN = Some ''secret'', REPO = repo,
       AUTHOR_LOGIN = Some ''octocat'' \<rparr>"

definition sample_world :: "item_node \<Rightarrow> world" where
  "sample_world it =
     \<lparr> board_answer = (\<lambda>_ _ _. Inr (sample_board it)),
       add_item_answer = (\<lambda>_ _. Inr ''N1''),
       contributor_answer = (\<lambda>_. Inr \<lparr>user = Some
         \<lparr>pullRequestContributionsByRepository =
            [\<lparr>totalCount = 7, nameWithOwner = ''octocat/hello''\<rparr>,
             \<lparr>totalCount = 1, nameWithOwner = ''github/docs''\<rparr>],
          issueContributionsByRepository = []\<rparr>\<rparr>),
       docs_team_answer = (\<lambda>_. Inr False),
       org_member_answer = (\<lambda>_. Inr False),
       update_answer = (\<lambda>_ _. Inr ()),
       now = 100 \<rparr>"

section \<open>Properties\<close>

subsection \<open>The loop over the changed files\<close>

lemma fold_visit_numFiles: "numFiles (fold visit nodes t) = numFiles t + length nodes"
  by (induction nodes arbitrary: t) (simp_all add: visit_def Let_def)

lemma fold_visit_numChanges:
  "numChanges (fold visit nodes t) = numChanges t + (\<Sum>f\<leftarrow>nodes. additions f + deletions f)"
  by (induction nodes arbitrary: t) (simp_all add: visit_def Let_def)






lemma numFiles_forEach: "numFiles (forEach_files nodes) = length nodes"
  by (simp add: forEach_files_def fold_visit_numFiles)

lemma numChanges_forEach:
  "numChanges (forEach_files nodes) = (\<Sum>f\<leftarrow>nodes. additions f + deletions f)"
  by (simp add: forEach_files_def fold_visit_numChanges)


subsection \<open>The run as a sequence of events\<close>

text \<open>
  The two sub-steps that await boundary calls append their events to the history and
  return a result that does not depend on it, so the whole run unfolds into one nested case
  distinction on the answers of the outside world.
\<close>

lemma firstTimeContributor_trace:
  "firstTimeContributor w e t =
     (t @ fst (firstTimeContributor w e []), snd (firstTimeContributor w e []))"
  by (simp add: firstTimeContributor_def thenA_def await_def pureA_def split: sum.splits)

lemma contributor_type_trace:
  "contributor_type w e i t =
     (t @ fst (contributor_type w e i []), snd (contributor_type w e i []))"
  by (simp add: contributor_type_def thenA_def await_def pureA_def split: sum.splits)

lemma firstTimeContributor_events:
  "fst (firstTimeContributor w e []) =
     (if REPO e = Some ''github/docs'' then [GraphqlContributorQuery (AUTHOR_LOGIN e)] else [])"
  by (simp add: firstTimeContributor_def thenA_def await_def pureA_def split: sum.splits)

lemma firstTimeContributor_result:
  "snd (firstTimeContributor w e []) =
     (if REPO e = Some ''github/docs''
      then thenR (contributor_answer w (AUTHOR_LOGIN e)) first_time
      else Inr False)"
  by (simp add: firstTimeContributor_def thenA_def thenR_def await_def pureA_def split: sum.splits)

lemma contributor_type_events:
  "fst (contributor_type w e i []) =
     IsDocsTeamMember (AUTHOR_LOGIN e) #
     (if docs_team_answer w (AUTHOR_LOGIN e) = Inr False
      then [IsGitHubOrgMember (AUTHOR_LOGIN e)] else [])"
  by (auto simp add: contributor_type_def thenA_def await_def pureA_def split: sum.splits)

lemma contributor_type_result:
  "snd (contributor_type w e i []) =
     thenR (docs_team_answer w (AUTHOR_LOGIN e)) (\<lambda>docsTeam.
       if docsTeam then Inr (docsMemberTypeID i)
       else thenR (org_member_answer w (AUTHOR_LOGIN e)) (\<lambda>orgMember.
         if orgMember then Inr (hubberTypeID i)
         else if REPO e = Some ''github/docs'' then Inr (osContributorTypeID i)
         else Inr (hubberTypeID i)))"
  by (auto simp add: contributor_type_def thenA_def thenR_def await_def pureA_def split: sum.splits)

lemma populate_eq:
  "populate w e data i newItemID t =
     (case snd (firstTimeContributor w e []) of
        Inl err \<Rightarrow> (t @ fst (firstTimeContributor w e []), Inl err)
      | Inr firstTime \<Rightarrow>
          (case snd (contributor_type w e i []) of
             Inl err \<Rightarrow>
               (t @ fst (firstTimeContributor w e []) @ fst (contributor_type w e i []), Inl err)
           | Inr contributorType \<Rightarrow>
               (let m = generateUpdateProjectV2ItemFieldMutation (now w) newItemID
                          (if firstTime then Some ''first time contributor'' else AUTHOR_LOGIN e)
                          (if REPO e = Some ''github/docs'' then 3 else 2)
                          (fst (feature_and_size i (item data)));
                    v = variables i contributorType (snd (feature_and_size i (item data)));
                    t' = t @ fst (firstTimeContributor w e []) @ fst (contributor_type w e i []) @
                           [ConsoleLog (''Populating fields for item: '' @ newItemID),
                            GraphqlUpdate m v]
                in case update_answer w m v of
                     Inl err \<Rightarrow> (t', Inl err)
                   | Inr u \<Rightarrow> (t' @ [ConsoleLog ''Done populating fields for item''],
                               Inr newItemID))))"
  unfolding populate_def thenA_def
  apply (subst firstTimeContributor_trace)
  apply (subst contributor_type_trace)
  apply (simp add: await_def pureA_def console_log_def Let_def split: sum.splits prod.splits)
  done

lemma run_eq:
  "run w e [] =
     (let q = GraphqlBoardQuery (ITEM_NODE_ID e) (ORGANIZATION e) (PROJECT_NUMBER e) in
      case board_answer w (ITEM_NODE_ID e) (ORGANIZATION e) (PROJECT_NUMBER e) of
        Inl err \<Rightarrow> ([q], Inl err)
      | Inr data \<Rightarrow>
          (case lookup_ids data of
             Inl err \<Rightarrow> ([q], Inl err)
           | Inr i \<Rightarrow>
               (case add_item_answer w (ITEM_NODE_ID e) (projectID i) of
                  Inl err \<Rightarrow> ([q, AddItemToProject (ITEM_NODE_ID e) (projectID i)], Inl err)
                | Inr newItemID \<Rightarrow>
                    populate w e data i newItemID
                      [q, AddItemToProject (ITEM_NODE_ID e) (projectID i)])))"
  by (simp add: run_def thenA_def await_def pureA_def Let_def split: sum.splits)


lemma update_event:
  assumes "GraphqlUpdate m v \<in> set (fst (main w e))"
  shows "\<exists>data i newItemID firstTime contributorType.
    board_answer w (ITEM_NODE_ID e) (ORGANIZATION e) (PROJECT_NUMBER e) = Inr data \<and>
    lookup_ids data = Inr i \<and>
    add_item_answer w (ITEM_NODE_ID e) (projectID i) = Inr newItemID \<and>
    snd (firstTimeContributor w e []) = Inr firstTime \<and>
    snd (contributor_type w e i []) = Inr contributorType \<and>
    m = generateUpdateProjectV2ItemFieldMutation (now w) newItemID
          (if firstTime then Some ''first time contributor'' else AUTHOR_LOGIN e)
          (if REPO e = Some ''github/docs'' then 3 else 2)
          (fst (feature_and_size i (item data))) \<and>
    v = variables i contributorType (snd (feature_and_size i (item data)))"
proof -
  from assms obtain data where data:
    "board_answer w (ITEM_NODE_ID e) (ORGANIZATION e) (PROJECT_NUMBER e) = Inr data"
    by (cases "board_answer w (ITEM_NODE_ID e) (ORGANIZATION e) (PROJECT_NUMBER e)")
       (auto simp: main_def run_eq)
  from assms data obtain i where i: "lookup_ids data = Inr i"
    by (cases "lookup_ids data") (auto simp: main_def run_eq)
  from assms data i obtain newItemID where
    new: "add_item_answer w (ITEM_NODE_ID e) (projectID i) = Inr newItemID"
    by (cases "add_item_answer w (ITEM_NODE_ID e) (projectID i)") (auto simp: main_def run_eq)
  from assms data i new obtain firstTime where
    ft: "snd (firstTimeContributor w e []) = Inr firstTime"
    by (cases "snd (firstTimeContributor w e [])")
       (auto simp: main_def run_eq populate_eq firstTimeContributor_events split: if_splits)
  from assms data i new ft obtain contributorType where
    ct: "snd (contributor_type w e i []) = Inr contributorType"
    by (cases "snd (contributor_type w e i [])")
       (auto simp: main_def run_eq populate_eq firstTimeContributor_events
          contributor_type_events split: if_splits)
  from assms data i new ft ct have
    "m = generateUpdateProjectV2ItemFieldMutation (now w) newItemID
          (if firstTime then Some ''first time contributor'' else AUTHOR_LOGIN e)
          (if REPO e = Some ''github/docs'' then 3 else 2)
          (fst (feature_and_size i (item data))) \<and>
     v = variables i contributorType (snd (feature_and_size i (item data)))"
    by (auto simp: main_def run_eq populate_eq Let_def firstTimeContributor_events
          contributor_type_events split: if_splits sum.splits)
  with data i new ft ct show ?thesis by blast
qed

subsection \<open>The resolved identifiers\<close>

lemma lookup_ids_names:
  assumes "lookup_ids data = Inr i"
  shows "projectID i = projectV2_id data"
    and "findFieldID ''Date posted'' data = Inr (datePostedID i)"
    and "findFieldID ''Review due date'' data = Inr (reviewDueDateID i)"
    and "findFieldID ''Status'' data = Inr (statusID i)"
    and "findFieldID ''Feature'' data = Inr (featureID i)"
    and "findFieldID ''Contributor type'' data = Inr (contributorTypeID i)"
    and "findFieldID ''Size'' data = Inr (sizeTypeID i)"
    and "findFieldID ''Contributor'' data = Inr (authorID i)"
    and "findSingleSelectID ''Ready for review'' ''Status'' data = Inr (readyForReviewID i)"
    and "findSingleSelectID ''Hubber or partner'' ''Contributor type'' data = Inr (hubberTypeID i)"
    and "findSingleSelectID ''Docs team'' ''Contributor type'' data = Inr (docsMemberTypeID i)"
    and "findSingleSelectID ''OS contributor'' ''Contributor type'' data = Inr (osContributorTypeID i)"
    and "findSingleSelectID ''XS'' ''Size'' data = Inr (sizeXS i)"
    and "findSingleSelectID ''S'' ''Size'' data = Inr (sizeS i)"
    and "findSingleSelectID ''M'' ''Size'' data = Inr (sizeM i)"
    and "findSingleSelectID ''L'' ''Size'' data = Inr (sizeL i)"
  using assms unfolding lookup_ids_def thenR_def by (auto split: sum.splits)

lemma sample_lookup: "lookup_ids (sample_board it) = Inr sample_ids"
  by (simp add: lookup_ids_def thenR_def findFieldID_def findSingleSelectID_def
        sample_board_def sample_fields_def sample_ids_def)

lemmas run_simps = main_def run_eq populate_eq firstTimeContributor_events
  firstTimeContributor_result contributor_type_events contributor_type_result thenR_def
  first_time_def docs_count_def at_index_def generateUpdateProjectV2ItemFieldMutation_def
  variables_def sample_world_def sample_env_def sample_lookup

subsection \<open>Size classification\<close>

text \<open>
  C1. The loop leaves in \<open>numFiles\<close> the number of changed files and in \<open>numChanges\<close>
  the sum of additions plus deletions over all of them, and the size of a pull request is
  the identifier of the option chosen from these two numbers: that of XS, S, M or L, each
  bucket getting the option of its own name. The choice is the first whose condition holds: XS when numFiles < 5 and numChanges < 10; else S when
  numFiles < 10 and numChanges < 50; else M when numFiles < 10 and numChanges < 250; else
  L. In particular (4,9) gives XS, (9,49) gives S, (9,249) gives M, (10,0) gives L and
  (4,10) gives S.
\<close>

theorem size_classification:
  "numFiles (forEach_files nodes) = length nodes \<and>
   numChanges (forEach_files nodes) = (\<Sum>f\<leftarrow>nodes. additions f + deletions f) \<and>
   snd (feature_and_size i \<lparr>typename = ''PullRequest'', files_nodes = nodes\<rparr>) =
     (if length nodes < 5 \<and> (\<Sum>f\<leftarrow>nodes. additions f + deletions f) < 10 then sizeXS i
      else if length nodes < 10 \<and> (\<Sum>f\<leftarrow>nodes. additions f + deletions f) < 50 then sizeS i
      else if length nodes < 10 \<and> (\<Sum>f\<leftarrow>nodes. additions f + deletions f) < 250 then sizeM i
      else sizeL i) \<and>
   snd (feature_and_size i \<lparr>typename = ''PullRequest'', files_nodes = nodes\<rparr>) =
     size_id i (determine_size (length nodes) (\<Sum>f\<leftarrow>nodes. additions f + deletions f)) \<and>
   size_id i (determine_size 4 9) = sizeXS i \<and> size_id i (determine_size 9 49) = sizeS i \<and>
   size_id i (determine_size 9 249) = sizeM i \<and> size_id i (determine_size 10 0) = sizeL i \<and>
   size_id i (determine_size 4 10) = sizeS i \<and>
   (determine_size nf nc = XS \<longleftrightarrow> nf < 5 \<and> nc < 10) \<and>
   (determine_size nf nc = S \<longleftrightarrow> \<not> (nf < 5 \<and> nc < 10) \<and> nf < 10 \<and> nc < 50) \<and>
   (determine_size nf nc = M \<longleftrightarrow>
      \<not> (nf < 5 \<and> nc < 10) \<and> \<not> (nf < 10 \<and> nc < 50) \<and> nf < 10 \<and> nc < 250) \<and>
   (determine_size nf nc = L \<longleftrightarrow>
      \<not> (nf < 5 \<and> nc < 10) \<and> \<not> (nf < 10 \<and> nc < 50) \<and> \<not> (nf < 10 \<and> nc < 250)) \<and>
   determine_size 4 9 = XS \<and> determine_size 9 49 = S \<and> determine_size 9 249 = M \<and>
   determine_size 10 0 = L \<and> determine_size 4 10 = S"
proof -
  have c: "snd (feature_and_size i \<lparr>typename = ''PullRequest'', files_nodes = nodes\<rparr>) =
     size_id i (determine_size (length nodes) (\<Sum>f\<leftarrow>nodes. additions f + deletions f))"
    by (simp add: feature_and_size_def Let_def numFiles_forEach numChanges_forEach)
  have d: "determine_size nf nc = XS \<longleftrightarrow> nf < 5 \<and> nc < 10"
    "determine_size nf nc = S \<longleftrightarrow> \<not> (nf < 5 \<and> nc < 10) \<and> nf < 10 \<and> nc < 50"
    "determine_size nf nc = M \<longleftrightarrow>
       \<not> (nf < 5 \<and> nc < 10) \<and> \<not> (nf < 10 \<and> nc < 50) \<and> nf < 10 \<and> nc < 250"
    "determine_size nf nc = L \<longleftrightarrow>
       \<not> (nf < 5 \<and> nc < 10) \<and> \<not> (nf < 10 \<and> nc < 50) \<and> \<not> (nf < 10 \<and> nc < 250)"
    by (auto simp: determine_size_def)
  have e: "determine_size 4 9 = XS" "determine_size 9 49 = S" "determine_size 9 249 = M"
    "determine_size 10 0 = L" "determine_size 4 10 = S"
    by (simp_all add: determine_size_def)
  have g: "snd (feature_and_size i \<lparr>typename = ''PullRequest'', files_nodes = nodes\<rparr>) =
     (if length nodes < 5 \<and> (\<Sum>f\<leftarrow>nodes. additions f + deletions f) < 10 then sizeXS i
      else if length nodes < 10 \<and> (\<Sum>f\<leftarrow>nodes. additions f + deletions f) < 50 then sizeS i
      else if length nodes < 10 \<and> (\<Sum>f\<leftarrow>nodes. additions f + deletions f) < 250 then sizeM i
      else sizeL i)"
    by (simp add: feature_and_size_def Let_def numFiles_forEach numChanges_forEach
          determine_size_def)
  have h: "size_id i (determine_size 4 9) = sizeXS i" "size_id i (determine_size 9 49) = sizeS i"
    "size_id i (determine_size 9 249) = sizeM i" "size_id i (determine_size 10 0) = sizeL i"
    "size_id i (determine_size 4 10) = sizeS i"
    by (simp_all add: determine_size_def)
  from numFiles_forEach numChanges_forEach c d e g h show ?thesis by blast
qed

subsection \<open>Feature extraction\<close>


subsection \<open>Items that are not pull requests, and pull requests without files\<close>

text \<open>
  C5. For every target item that is not a pull request, whatever else the answers hold,
  the update carries the empty feature string and, as size, the option S (the thresholds
  are not consulted: the pair of feature and size is the initial one).
\<close>

theorem issue_default:
  assumes "board_answer w (ITEM_NODE_ID e) (ORGANIZATION e) (PROJECT_NUMBER e) = Inr data"
    and "typename (item data) \<noteq> ''PullRequest''"
    and "GraphqlUpdate m v \<in> set (fst (main w e))"
  shows "m_feature m = [] \<and> findSingleSelectID ''S'' ''Size'' data = Inr (v_sizeType v) \<and>
    (\<forall>i. feature_and_size i (item data) = ([], sizeS i))"
proof -
  from update_event[OF assms(3)] assms(1) obtain i firstTime contributorType newItemID where
    i: "lookup_ids data = Inr i" and
    m: "m = generateUpdateProjectV2ItemFieldMutation (now w) newItemID
          (if firstTime then Some ''first time contributor'' else AUTHOR_LOGIN e)
          (if REPO e = Some ''github/docs'' then 3 else 2)
          (fst (feature_and_size i (item data)))" and
    v: "v = variables i contributorType (snd (feature_and_size i (item data)))"
    by auto
  have fs: "feature_and_size j (item data) = ([], sizeS j)" for j
    using assms(2) by (simp add: feature_and_size_def)
  from m fs have "m_feature m = []"
    by (simp add: generateUpdateProjectV2ItemFieldMutation_def)
  moreover from v fs lookup_ids_names(14)[OF i]
  have "findSingleSelectID ''S'' ''Size'' data = Inr (v_sizeType v)"
    by (simp add: variables_def)
  ultimately show ?thesis using fs by blast
qed

theorem issue_default_witness:
  "\<exists>m v. GraphqlUpdate m v \<in>
       set (fst (main (sample_world \<lparr>typename = ''Issue'',
                          files_nodes = [\<lparr>additions = 900, deletions = 0, path = ''content/actions/a.md''\<rparr>]\<rparr>)
                  (sample_env (Some ''github/docs'')))) \<and>
     m_feature m = [] \<and> v_sizeType v = ''O6''"
proof -
  let ?it = "\<lparr>typename = ''Issue'',
      files_nodes = [\<lparr>additions = 900, deletions = 0, path = ''content/actions/a.md''\<rparr>]\<rparr>"
  let ?w = "sample_world ?it" and ?e = "sample_env (Some ''github/docs'')"
  have b: "board_answer ?w (ITEM_NODE_ID ?e) (ORGANIZATION ?e) (PROJECT_NUMBER ?e) =
      Inr (sample_board ?it)"
    by (simp add: sample_world_def)
  have t: "typename (item (sample_board ?it)) \<noteq> ''PullRequest''"
    by (simp add: sample_board_def)
  obtain m v where u: "GraphqlUpdate m v \<in> set (fst (main ?w ?e))"
    by (simp add: run_simps Let_def)
  have s: "findSingleSelectID ''S'' ''Size'' (sample_board ?it) = Inr ''O6''"
    using lookup_ids_names(14)[OF sample_lookup] by (simp add: sample_ids_def)
  from issue_default[OF b t u] s have "m_feature m = [] \<and> v_sizeType v = ''O6''"
    by simp
  with u show ?thesis by blast
qed

text \<open>
  C9. A pull request never keeps the default: its size is the option the thresholds choose
  from the number of its files and the sum of their changes. With no changed file that is
  XS, since 0 < 5 and 0 < 10.
\<close>

theorem empty_pull_request:
  assumes "board_answer w (ITEM_NODE_ID e) (ORGANIZATION e) (PROJECT_NUMBER e) = Inr data"
    and "typename (item data) = ''PullRequest''"
    and "GraphqlUpdate m v \<in> set (fst (main w e))"
  shows "(files_nodes (item data) = [] \<longrightarrow>
            findSingleSelectID ''XS'' ''Size'' data = Inr (v_sizeType v)) \<and>
    (\<exists>i. lookup_ids data = Inr i \<and>
       v_sizeType v = size_id i (determine_size (length (files_nodes (item data)))
          (\<Sum>f\<leftarrow>files_nodes (item data). additions f + deletions f))) \<and>
    determine_size 0 0 = XS"
proof -
  from update_event[OF assms(3)] assms(1) obtain i contributorType where
    i: "lookup_ids data = Inr i" and
    v: "v = variables i contributorType (snd (feature_and_size i (item data)))"
    by auto
  have sz: "v_sizeType v = size_id i (determine_size (length (files_nodes (item data)))
          (\<Sum>f\<leftarrow>files_nodes (item data). additions f + deletions f))"
    using v assms(2)
    by (simp add: variables_def feature_and_size_def Let_def numFiles_forEach numChanges_forEach)
  have z: "determine_size 0 0 = XS" by (simp add: determine_size_def)
  have "findSingleSelectID ''XS'' ''Size'' data = Inr (v_sizeType v)"
    if "files_nodes (item data) = []"
    using sz that z lookup_ids_names(13)[OF i] by simp
  with i sz z show ?thesis by blast
qed

theorem empty_pull_request_witness:
  "\<exists>m v. GraphqlUpdate m v \<in>
       set (fst (main (sample_world \<lparr>typename = ''PullRequest'', files_nodes = []\<rparr>)
                  (sample_env (Some ''github/docs'')))) \<and>
     v_sizeType v = ''O5'' \<and> v_sizeType v \<noteq> sizeS sample_ids"
proof -
  let ?it = "\<lparr>typename = ''PullRequest'', files_nodes = []\<rparr>"
  let ?w = "sample_world ?it" and ?e = "sample_env (Some ''github/docs'')"
  have b: "board_answer ?w (ITEM_NODE_ID ?e) (ORGANIZATION ?e) (PROJECT_NUMBER ?e) =
      Inr (sample_board ?it)"
    by (simp add: sample_world_def)
  have t: "typename (item (sample_board ?it)) = ''PullRequest''"
    and f: "files_nodes (item (sample_board ?it)) = []"
    by (simp_all add: sample_board_def)
  obtain m v where u: "GraphqlUpdate m v \<in> set (fst (main ?w ?e))"
    by (simp add: run_simps Let_def)
  have s: "findSingleSelectID ''XS'' ''Size'' (sample_board ?it) = Inr ''O5''"
    using lookup_ids_names(13)[OF sample_lookup] by (simp add: sample_ids_def)
  from empty_pull_request[OF b t u] f s have x: "v_sizeType v = ''O5''"
    by simp
  then have y: "v_sizeType v \<noteq> sizeS sample_ids"
    by (simp add: sample_ids_def)
  from u x y show ?thesis by blast
qed

subsection \<open>Turnaround\<close>

text \<open>
  C6. The turnaround handed to the generated update is 3 when the current repository is
  \<^verbatim>\<open>github/docs\<close> and 2 in every other case, also when the variable is not set.
\<close>

theorem turnaround_days:
  "GraphqlUpdate m v \<in> set (fst (main w e)) \<Longrightarrow>
     m_turnaround m = (if REPO e = Some ''github/docs'' then 3 else 2)"
  by (drule update_event) (auto simp: generateUpdateProjectV2ItemFieldMutation_def)

theorem turnaround_days_witness:
  "(\<exists>m v. GraphqlUpdate m v \<in>
       set (fst (main (sample_world \<lparr>typename = ''Issue'', files_nodes = []\<rparr>)
                  (sample_env (Some ''github/docs'')))) \<and> m_turnaround m = 3) \<and>
   (\<exists>m v. GraphqlUpdate m v \<in>
       set (fst (main (sample_world \<lparr>typename = ''Issue'', files_nodes = []\<rparr>)
                  (sample_env (Some ''github/docs-internal'')))) \<and> m_turnaround m = 2) \<and>
   (\<exists>m v. GraphqlUpdate m v \<in>
       set (fst (main (sample_world \<lparr>typename = ''Issue'', files_nodes = []\<rparr>)
                  (sample_env None))) \<and> m_turnaround m = 2)"
proof -
  let ?w = "sample_world \<lparr>typename = ''Issue'', files_nodes = []\<rparr>"
  have ex: "\<exists>m v. GraphqlUpdate m v \<in> set (fst (main ?w (sample_env r)))" for r
    by (simp add: run_simps Let_def)
  have r: "REPO (sample_env r) = r" for r by (simp add: sample_env_def)
  obtain m1 v1 where 1: "GraphqlUpdate m1 v1 \<in> set (fst (main ?w (sample_env (Some ''github/docs''))))"
    using ex by blast
  obtain m2 v2 where 2: "GraphqlUpdate m2 v2 \<in> set (fst (main ?w (sample_env (Some ''github/docs-internal''))))"
    using ex by blast
  obtain m3 v3 where 3: "GraphqlUpdate m3 v3 \<in> set (fst (main ?w (sample_env None)))"
    using ex by blast
  from turnaround_days[OF 1] have "m_turnaround m1 = 3" by (simp add: r)
  moreover from turnaround_days[OF 2] have "m_turnaround m2 = 2" by (simp add: r)
  moreover from turnaround_days[OF 3] have "m_turnaround m3 = 2" by (simp add: r)
  ultimately show ?thesis using 1 2 3 by blast
qed

subsection \<open>Paths directly under the content root\<close>

text \<open>
  C10. A changed file whose path has exactly two segments, the first being \<^verbatim>\<open>content\<close>
  (such as \<^verbatim>\<open>content/README.md\<close>), adds its own file name as a feature. The path that is
  the single segment \<^verbatim>\<open>content\<close> adds the undefined second segment to the set, and the
  joined string renders that member as the empty string.
\<close>

theorem content_root_files:
  "(split CHR ''/'' (path node) = [''content'', name] \<longrightarrow>
      features (visit node t) = set_add (Some name) (features t)) \<and>
   (split CHR ''/'' (path node) = [''content''] \<longrightarrow>
      features (visit node t) = set_add None (features t)) \<and>
   split CHR ''/'' ''content/README.md'' = [''content'', ''README.md''] \<and>
   split CHR ''/'' ''content'' = [''content''] \<and>
   join fs = join (map (\<lambda>x. Some (render x)) fs) \<and>
   join (fs @ [None]) = (if fs = [] then [] else join fs @ '','') \<and>
   fst (feature_and_size i \<lparr>typename = ''PullRequest'', files_nodes =
     [\<lparr>additions = a1, deletions = d1, path = ''content/README.md''\<rparr>]\<rparr>) = ''README.md'' \<and>
   fst (feature_and_size i \<lparr>typename = ''PullRequest'', files_nodes =
     [\<lparr>additions = a1, deletions = d1, path = ''content''\<rparr>]\<rparr>) = [] \<and>
   fst (feature_and_size i \<lparr>typename = ''PullRequest'', files_nodes =
     [\<lparr>additions = a1, deletions = d1, path = ''content/actions/a.md''\<rparr>,
      \<lparr>additions = a2, deletions = d2, path = ''content''\<rparr>]\<rparr>) = ''actions,''"
proof -
  have a: "features (visit node t) = set_add (Some name) (features t)"
    if "split CHR ''/'' (path node) = [''content'', name]"
    using that by (simp add: visit_def at_index_def)
  have b: "features (visit node t) = set_add None (features t)"
    if "split CHR ''/'' (path node) = [''content'']"
    using that by (simp add: visit_def at_index_def)
  have c: "split CHR ''/'' ''content/README.md'' = [''content'', ''README.md'']"
    "split CHR ''/'' ''content'' = [''content'']"
    by simp_all
  have d: "join fs = join (map (\<lambda>x. Some (render x)) fs)"
    by (induction fs rule: join.induct) simp_all
  have e: "join (fs @ [None]) = (if fs = [] then [] else join fs @ '','')"
    by (induction fs rule: join.induct) simp_all
  have f: "fst (feature_and_size i \<lparr>typename = ''PullRequest'', files_nodes =
     [\<lparr>additions = a1, deletions = d1, path = ''content/README.md''\<rparr>]\<rparr>) = ''README.md''"
    "fst (feature_and_size i \<lparr>typename = ''PullRequest'', files_nodes =
     [\<lparr>additions = a1, deletions = d1, path = ''content''\<rparr>]\<rparr>) = []"
    "fst (feature_and_size i \<lparr>typename = ''PullRequest'', files_nodes =
     [\<lparr>additions = a1, deletions = d1, path = ''content/actions/a.md''\<rparr>,
      \<lparr>additions = a2, deletions = d2, path = ''content''\<rparr>]\<rparr>) = ''actions,''"
    by (simp_all add: feature_and_size_def forEach_files_def visit_def at_index_def set_add_def)
  from a b c d e f show ?thesis by blast
qed

theorem content_root_files_witness:
  "features (visit \<lparr>additions = 1, deletions = 0, path = ''content/README.md''\<rparr>
      \<lparr>numFiles = 0, numChanges = 0, features = []\<rparr>) = [Some ''README.md''] \<and>
   features (visit \<lparr>additions = 1, deletions = 0, path = ''content''\<rparr>
      \<lparr>numFiles = 1, numChanges = 1, features = [Some ''actions'']\<rparr>) =
     [Some ''actions'', None] \<and>
   join [Some ''actions'', None] = ''actions,''"
proof -
  have 1: "split CHR ''/'' (path \<lparr>additions = 1, deletions = 0, path = ''content/README.md''\<rparr>) =
      [''content'', ''README.md'']"
    and 2: "split CHR ''/'' (path \<lparr>additions = 1, deletions = 0, path = ''content''\<rparr>) =
      [''content'']"
    by simp_all
  from content_root_files[of "\<lparr>additions = 1, deletions = 0, path = ''content/README.md''\<rparr>"
      "''README.md''" "\<lparr>numFiles = 0, numChanges = 0, features = []\<rparr>" "[Some ''actions'']"] 1
  have "features (visit \<lparr>additions = 1, deletions = 0, path = ''content/README.md''\<rparr>
      \<lparr>numFiles = 0, numChanges = 0, features = []\<rparr>) = set_add (Some ''README.md'') []"
    by simp
  moreover
  from content_root_files[of "\<lparr>additions = 1, deletions = 0, path = ''content''\<rparr>" _
      "\<lparr>numFiles = 1, numChanges = 1, features = [Some ''actions'']\<rparr>" "[Some ''actions'']"] 2
  have "features (visit \<lparr>additions = 1, deletions = 0, path = ''content''\<rparr>
      \<lparr>numFiles = 1, numChanges = 1, features = [Some ''actions'']\<rparr>) =
      set_add None [Some ''actions'']"
    and "join ([Some ''actions''] @ [None]) = join [Some ''actions''] @ '',''"
    by simp_all
  ultimately show ?thesis by (simp add: set_add_def)
qed

subsection \<open>First-time contributors\<close>






subsection \<open>Contributor type\<close>

text \<open>
  C3. The contributor type of every update is chosen by the first rule that applies: a
  docs-team member gets the option \<^verbatim>\<open>Docs team\<close> (the organization lookup is then not
  consulted, so a member of both is a docs-team member only); otherwise an organization
  member gets \<^verbatim>\<open>Hubber or partner\<close>; otherwise, in \<^verbatim>\<open>github/docs\<close>, the author gets
  \<^verbatim>\<open>OS contributor\<close>; otherwise the fallback \<^verbatim>\<open>Hubber or partner\<close>. So the update always
  carries a contributor type.
\<close>

theorem contributor_classification:
  assumes "board_answer w (ITEM_NODE_ID e) (ORGANIZATION e) (PROJECT_NUMBER e) = Inr data"
    and "GraphqlUpdate m v \<in> set (fst (main w e))"
  shows "\<exists>docsTeam. docs_team_answer w (AUTHOR_LOGIN e) = Inr docsTeam \<and>
     (if docsTeam then
        findSingleSelectID ''Docs team'' ''Contributor type'' data = Inr (v_contributorType v)
      else
        (\<exists>orgMember. org_member_answer w (AUTHOR_LOGIN e) = Inr orgMember \<and>
           (if orgMember then
              findSingleSelectID ''Hubber or partner'' ''Contributor type'' data =
                Inr (v_contributorType v)
            else if REPO e = Some ''github/docs'' then
              findSingleSelectID ''OS contributor'' ''Contributor type'' data =
                Inr (v_contributorType v)
            else
              findSingleSelectID ''Hubber or partner'' ''Contributor type'' data =
                Inr (v_contributorType v))))"
proof -
  from update_event[OF assms(2)] assms(1) obtain i contributorType where
    i: "lookup_ids data = Inr i" and
    ct: "snd (contributor_type w e i []) = Inr contributorType" and
    v: "v = variables i contributorType (snd (feature_and_size i (item data)))"
    by auto
  from v have vc: "v_contributorType v = contributorType"
    by (simp add: variables_def)
  from ct obtain docsTeam where d: "docs_team_answer w (AUTHOR_LOGIN e) = Inr docsTeam"
    by (cases "docs_team_answer w (AUTHOR_LOGIN e)")
       (simp_all add: contributor_type_result thenR_def)
  show ?thesis
  proof (cases docsTeam)
    case True
    with ct d have "contributorType = docsMemberTypeID i"
      by (simp add: contributor_type_result thenR_def)
    with True d vc lookup_ids_names(11)[OF i] show ?thesis by auto
  next
    case False
    with ct d obtain orgMember where o: "org_member_answer w (AUTHOR_LOGIN e) = Inr orgMember"
      by (cases "org_member_answer w (AUTHOR_LOGIN e)")
         (simp_all add: contributor_type_result thenR_def)
    from False ct d o have "contributorType =
        (if orgMember then hubberTypeID i
         else if REPO e = Some ''github/docs'' then osContributorTypeID i
         else hubberTypeID i)"
      by (simp add: contributor_type_result thenR_def split: if_splits)
    with False d o vc lookup_ids_names(10)[OF i] lookup_ids_names(12)[OF i]
    show ?thesis by auto
  qed
qed

theorem contributor_classification_witness:
  "(\<exists>m v. GraphqlUpdate m v \<in>
       set (fst (main (sample_world \<lparr>typename = ''Issue'', files_nodes = []\<rparr>
                        \<lparr>docs_team_answer := \<lambda>_. Inr True, org_member_answer := \<lambda>_. Inr True\<rparr>)
                  (sample_env (Some ''github/docs'')))) \<and> v_contributorType v = ''O3'') \<and>
   (\<exists>m v. GraphqlUpdate m v \<in>
       set (fst (main (sample_world \<lparr>typename = ''Issue'', files_nodes = []\<rparr>
                        \<lparr>org_member_answer := \<lambda>_. Inr True\<rparr>)
                  (sample_env (Some ''github/docs'')))) \<and> v_contributorType v = ''O2'') \<and>
   (\<exists>m v. GraphqlUpdate m v \<in>
       set (fst (main (sample_world \<lparr>typename = ''Issue'', files_nodes = []\<rparr>)
                  (sample_env (Some ''github/docs'')))) \<and> v_contributorType v = ''O4'') \<and>
   (\<exists>m v. GraphqlUpdate m v \<in>
       set (fst (main (sample_world \<lparr>typename = ''Issue'', files_nodes = []\<rparr>)
                  (sample_env (Some ''github/docs-internal'')))) \<and> v_contributorType v = ''O2'')"
proof -
  let ?it = "\<lparr>typename = ''Issue'', files_nodes = []\<rparr>"
  let ?w1 = "sample_world ?it
    \<lparr>docs_team_answer := \<lambda>_. Inr True, org_member_answer := \<lambda>_. Inr True\<rparr>"
  let ?w2 = "sample_world ?it \<lparr>org_member_answer := \<lambda>_. Inr True\<rparr>"
  let ?w3 = "sample_world ?it"
  let ?e = "sample_env (Some ''github/docs'')"
  let ?e' = "sample_env (Some ''github/docs-internal'')"
  have ids: "findSingleSelectID ''Docs team'' ''Contributor type'' (sample_board ?it) = Inr ''O3''"
    "findSingleSelectID ''Hubber or partner'' ''Contributor type'' (sample_board ?it) = Inr ''O2''"
    "findSingleSelectID ''OS contributor'' ''Contributor type'' (sample_board ?it) = Inr ''O4''"
    using lookup_ids_names(10-12)[OF sample_lookup] by (simp_all add: sample_ids_def)
  have b1: "board_answer ?w1 (ITEM_NODE_ID ?e) (ORGANIZATION ?e) (PROJECT_NUMBER ?e) =
      Inr (sample_board ?it)"
    and b2: "board_answer ?w2 (ITEM_NODE_ID ?e) (ORGANIZATION ?e) (PROJECT_NUMBER ?e) =
      Inr (sample_board ?it)"
    and b3: "board_answer ?w3 (ITEM_NODE_ID ?e) (ORGANIZATION ?e) (PROJECT_NUMBER ?e) =
      Inr (sample_board ?it)"
    and b4: "board_answer ?w3 (ITEM_NODE_ID ?e') (ORGANIZATION ?e') (PROJECT_NUMBER ?e') =
      Inr (sample_board ?it)"
    by (simp_all add: sample_world_def)
  obtain m1 v1 where u1: "GraphqlUpdate m1 v1 \<in> set (fst (main ?w1 ?e))"
    by (simp add: run_simps Let_def)
  obtain m2 v2 where u2: "GraphqlUpdate m2 v2 \<in> set (fst (main ?w2 ?e))"
    by (simp add: run_simps Let_def)
  obtain m3 v3 where u3: "GraphqlUpdate m3 v3 \<in> set (fst (main ?w3 ?e))"
    by (simp add: run_simps Let_def)
  obtain m4 v4 where u4: "GraphqlUpdate m4 v4 \<in> set (fst (main ?w3 ?e'))"
    by (simp add: run_simps Let_def)
  from contributor_classification[OF b1 u1] ids have "v_contributorType v1 = ''O3''"
    by (auto simp: sample_world_def)
  moreover from contributor_classification[OF b2 u2] ids have "v_contributorType v2 = ''O2''"
    by (auto simp: sample_world_def)
  moreover from contributor_classification[OF b3 u3] ids have "v_contributorType v3 = ''O4''"
    by (auto simp: sample_world_def sample_env_def)
  moreover from contributor_classification[OF b4 u4] ids have "v_contributorType v4 = ''O2''"
    by (auto simp: sample_world_def sample_env_def)
  ultimately show ?thesis using u1 u2 u3 u4 by blast
qed

subsection \<open>Lookups that find nothing\<close>

lemma findFieldID_absent:
  "Some n \<notin> node_name ` set (fields_nodes data) \<Longrightarrow> findFieldID n data = Inl (LookupError n)"
proof -
  assume "Some n \<notin> node_name ` set (fields_nodes data)"
  then have "find (\<lambda>f. node_name f = Some n) (fields_nodes data) = None"
    by (force simp: find_None_iff image_iff)
  then show ?thesis by (simp add: findFieldID_def)
qed

lemma findSingleSelectID_absent:
  assumes "\<forall>f\<in>set (fields_nodes data).
             node_name f = Some fld \<longrightarrow> opt \<notin> option_name ` set (node_options f)"
  shows "\<exists>err. findSingleSelectID opt fld data = Inl err"
proof (cases "find (\<lambda>f. node_name f = Some fld) (fields_nodes data)")
  case None
  then show ?thesis by (simp add: findSingleSelectID_def)
next
  case (Some f)
  then have "f \<in> set (fields_nodes data)" and "node_name f = Some fld"
    by (auto simp: find_Some_iff)
  with assms have "opt \<notin> option_name ` set (node_options f)" by blast
  then have "find (\<lambda>x. option_name x = opt) (node_options f) = None"
    by (force simp: find_None_iff image_iff)
  with Some show ?thesis by (simp add: findSingleSelectID_def)
qed

lemma lookup_ids_needs:
  assumes "lookup_ids data = Inr i"
  shows "\<forall>n\<in>set required_fields. \<exists>x. findFieldID n data = Inr x"
    and "\<forall>(opt, fld)\<in>set required_options. \<exists>x. findSingleSelectID opt fld data = Inr x"
  using lookup_ids_names[OF assms]
  by (simp_all add: required_fields_def required_options_def)

text \<open>
  C7. Whenever the fetched board lacks one of the seven field names, or one of the eight
  option names in every field of the name it is looked up under, the lookup of that name
  fails (it returns no identifier at all), the run stops right after the first query
  without issuing any mutation, prints the error and exits with status 1.
\<close>

theorem lookup_failure:
  assumes "board_answer w (ITEM_NODE_ID e) (ORGANIZATION e) (PROJECT_NUMBER e) = Inr data"
    and "(\<exists>n\<in>set required_fields. Some n \<notin> node_name ` set (fields_nodes data)) \<or>
         (\<exists>(opt, fld)\<in>set required_options. \<forall>f\<in>set (fields_nodes data).
            node_name f = Some fld \<longrightarrow> opt \<notin> option_name ` set (node_options f))"
  shows "(\<exists>err. lookup_ids data = Inl err \<and>
            main w e =
              ([GraphqlBoardQuery (ITEM_NODE_ID e) (ORGANIZATION e) (PROJECT_NUMBER e),
                ConsoleError err], 1)) \<and>
         (\<forall>n. Some n \<notin> node_name ` set (fields_nodes data) \<longrightarrow>
            findFieldID n data = Inl (LookupError n)) \<and>
         (\<forall>opt fld. (\<forall>f\<in>set (fields_nodes data).
              node_name f = Some fld \<longrightarrow> opt \<notin> option_name ` set (node_options f)) \<longrightarrow>
            (\<exists>err. findSingleSelectID opt fld data = Inl err))"
proof -
  have "\<not> (\<exists>i. lookup_ids data = Inr i)"
  proof
    assume "\<exists>i. lookup_ids data = Inr i"
    then obtain i where i: "lookup_ids data = Inr i" ..
    from assms(2) show False
    proof
      assume "\<exists>n\<in>set required_fields. Some n \<notin> node_name ` set (fields_nodes data)"
      then obtain n where "n \<in> set required_fields" and "findFieldID n data = Inl (LookupError n)"
        using findFieldID_absent by blast
      with lookup_ids_needs(1)[OF i] show False by auto
    next
      assume "\<exists>(opt, fld)\<in>set required_options. \<forall>f\<in>set (fields_nodes data).
            node_name f = Some fld \<longrightarrow> opt \<notin> option_name ` set (node_options f)"
      then obtain opt fld err where "(opt, fld) \<in> set required_options"
        and "findSingleSelectID opt fld data = Inl err"
        using findSingleSelectID_absent by blast
      with lookup_ids_needs(2)[OF i] show False by auto
    qed
  qed
  then obtain err where err: "lookup_ids data = Inl err"
    by (cases "lookup_ids data") auto
  with assms(1) have "main w e =
      ([GraphqlBoardQuery (ITEM_NODE_ID e) (ORGANIZATION e) (PROJECT_NUMBER e),
        ConsoleError err], 1)"
    by (simp add: main_def run_eq)
  with err show ?thesis
    using findFieldID_absent findSingleSelectID_absent by blast
qed

theorem lookup_failure_witness:
  "(\<exists>err. main (sample_world \<lparr>typename = ''Issue'', files_nodes = []\<rparr>
                 \<lparr>board_answer := \<lambda>_ _ _. Inr \<lparr>projectV2_id = ''P1'',
                    fields_nodes = butlast sample_fields,
                    item = \<lparr>typename = ''Issue'', files_nodes = []\<rparr>\<rparr>\<rparr>)
            (sample_env (Some ''github/docs'')) =
          ([GraphqlBoardQuery (Some ''I1'') (Some ''github'') (Some ''2936''),
            ConsoleError err], 1)) \<and>
   (\<exists>err. main (sample_world \<lparr>typename = ''Issue'', files_nodes = []\<rparr>
                 \<lparr>board_answer := \<lambda>_ _ _. Inr \<lparr>projectV2_id = ''P1'',
                    fields_nodes = map (\<lambda>f. if node_name f = Some ''Size'' then ProjectV2SingleSelectField ''F6'' ''Size'' [\<lparr>option_id = ''O5'', option_name = ''XS''\<rparr>] else f) sample_fields,
                    item = \<lparr>typename = ''Issue'', files_nodes = []\<rparr>\<rparr>\<rparr>)
            (sample_env (Some ''github/docs'')) =
          ([GraphqlBoardQuery (Some ''I1'') (Some ''github'') (Some ''2936''),
            ConsoleError err], 1))"
proof -
  let ?it = "\<lparr>typename = ''Issue'', files_nodes = []\<rparr>"
  let ?d1 = "\<lparr>projectV2_id = ''P1'', fields_nodes = butlast sample_fields, item = ?it\<rparr>"
  let ?d2 = "\<lparr>projectV2_id = ''P1'',
      fields_nodes = map (\<lambda>f. if node_name f = Some ''Size'' then ProjectV2SingleSelectField ''F6'' ''Size'' [\<lparr>option_id = ''O5'', option_name = ''XS''\<rparr>] else f) sample_fields, item = ?it\<rparr>"
  let ?w1 = "sample_world ?it \<lparr>board_answer := \<lambda>_ _ _. Inr ?d1\<rparr>"
  let ?w2 = "sample_world ?it \<lparr>board_answer := \<lambda>_ _ _. Inr ?d2\<rparr>"
  let ?e = "sample_env (Some ''github/docs'')"
  have b1: "board_answer ?w1 (ITEM_NODE_ID ?e) (ORGANIZATION ?e) (PROJECT_NUMBER ?e) = Inr ?d1"
    and b2: "board_answer ?w2 (ITEM_NODE_ID ?e) (ORGANIZATION ?e) (PROJECT_NUMBER ?e) = Inr ?d2"
    by (simp_all add: sample_world_def)
  have h1: "(\<exists>n\<in>set required_fields. Some n \<notin> node_name ` set (fields_nodes ?d1)) \<or>
         (\<exists>(opt, fld)\<in>set required_options. \<forall>f\<in>set (fields_nodes ?d1).
            node_name f = Some fld \<longrightarrow> opt \<notin> option_name ` set (node_options f))"
    by (simp add: required_fields_def sample_fields_def)
  have h2: "(\<exists>n\<in>set required_fields. Some n \<notin> node_name ` set (fields_nodes ?d2)) \<or>
         (\<exists>(opt, fld)\<in>set required_options. \<forall>f\<in>set (fields_nodes ?d2).
            node_name f = Some fld \<longrightarrow> opt \<notin> option_name ` set (node_options f))"
    by (simp add: required_options_def sample_fields_def)
  have env: "ITEM_NODE_ID ?e = Some ''I1''" "ORGANIZATION ?e = Some ''github''"
    "PROJECT_NUMBER ?e = Some ''2936''"
    by (simp_all add: sample_env_def)
  from lookup_failure[OF b1 h1] obtain err1 where
    "main ?w1 ?e =
       ([GraphqlBoardQuery (ITEM_NODE_ID ?e) (ORGANIZATION ?e) (PROJECT_NUMBER ?e),
         ConsoleError err1], 1)"
    by blast
  moreover from lookup_failure[OF b2 h2] obtain err2 where
    "main ?w2 ?e =
       ([GraphqlBoardQuery (ITEM_NODE_ID ?e) (ORGANIZATION ?e) (PROJECT_NUMBER ?e),
         ConsoleError err2], 1)"
    by blast
  ultimately show ?thesis unfolding env by blast
qed

subsection \<open>The order of the boundary calls\<close>

lemma map_filter_append: "List.map_filter f (xs @ ys) = List.map_filter f xs @ List.map_filter f ys"
  by (simp add: List.map_filter_def)

lemma populate_calls:
  "\<exists>rest. fst (populate w e data i newItemID t) = t @ rest \<and>
     subseq (List.map_filter boundary_of rest)
       [ContributorQuery, DocsTeamLookup, OrgMemberLookup, UpdateFields]"
proof (cases "snd (firstTimeContributor w e [])")
  case (Inl err)
  then have "fst (populate w e data i newItemID t) = t @ fst (firstTimeContributor w e [])"
    by (simp add: populate_eq)
  moreover have "subseq (List.map_filter boundary_of (fst (firstTimeContributor w e [])))
      [ContributorQuery, DocsTeamLookup, OrgMemberLookup, UpdateFields]"
    by (simp add: firstTimeContributor_events)
  ultimately show ?thesis by blast
next
  case ft: (Inr firstTime)
  show ?thesis
  proof (cases "snd (contributor_type w e i [])")
    case (Inl err)
    with ft have "fst (populate w e data i newItemID t) =
        t @ (fst (firstTimeContributor w e []) @ fst (contributor_type w e i []))"
      by (simp add: populate_eq)
    moreover have "subseq (List.map_filter boundary_of
        (fst (firstTimeContributor w e []) @ fst (contributor_type w e i [])))
      [ContributorQuery, DocsTeamLookup, OrgMemberLookup, UpdateFields]"
      by (simp add: firstTimeContributor_events contributor_type_events)
    ultimately show ?thesis by blast
  next
    case ct: (Inr contributorType)
    obtain m v where mv:
      "m = generateUpdateProjectV2ItemFieldMutation (now w) newItemID
             (if firstTime then Some ''first time contributor'' else AUTHOR_LOGIN e)
             (if REPO e = Some ''github/docs'' then 3 else 2)
             (fst (feature_and_size i (item data)))"
      "v = variables i contributorType (snd (feature_and_size i (item data)))"
      by blast
    have sub: "subseq (List.map_filter boundary_of
        (fst (firstTimeContributor w e []) @ fst (contributor_type w e i []) @
         [ConsoleLog (''Populating fields for item: '' @ newItemID), GraphqlUpdate m v] @ tl))
      [ContributorQuery, DocsTeamLookup, OrgMemberLookup, UpdateFields]"
      if "tl = [] \<or> tl = [ConsoleLog ''Done populating fields for item'']" for tl
      using that by (auto simp: firstTimeContributor_events contributor_type_events)
    show ?thesis
    proof (cases "update_answer w m v")
      case (Inl err)
      with ft ct mv have "fst (populate w e data i newItemID t) =
          t @ (fst (firstTimeContributor w e []) @ fst (contributor_type w e i []) @
         [ConsoleLog (''Populating fields for item: '' @ newItemID), GraphqlUpdate m v] @ [])"
        by (simp add: populate_eq Let_def)
      with sub[of "[]"] show ?thesis by blast
    next
      case (Inr u)
      with ft ct mv have "fst (populate w e data i newItemID t) =
          t @ (fst (firstTimeContributor w e []) @ fst (contributor_type w e i []) @
         [ConsoleLog (''Populating fields for item: '' @ newItemID), GraphqlUpdate m v] @
         [ConsoleLog ''Done populating fields for item''])"
        by (simp add: populate_eq Let_def)
      with sub[of "[ConsoleLog ''Done populating fields for item'']"] show ?thesis by blast
    qed
  qed
qed

lemma run_calls:
  "subseq (List.map_filter boundary_of (fst (run w e [])))
     [BoardQuery, AddItem, ContributorQuery, DocsTeamLookup, OrgMemberLookup, UpdateFields]"
proof (cases "board_answer w (ITEM_NODE_ID e) (ORGANIZATION e) (PROJECT_NUMBER e)")
  case (Inl err)
  then show ?thesis by (simp add: run_eq)
next
  case d: (Inr data)
  show ?thesis
  proof (cases "lookup_ids data")
    case (Inl err)
    with d show ?thesis by (simp add: run_eq)
  next
    case i: (Inr i)
    show ?thesis
    proof (cases "add_item_answer w (ITEM_NODE_ID e) (projectID i)")
      case (Inl err)
      with d i show ?thesis by (simp add: run_eq)
    next
      case (Inr newItemID)
      obtain rest where rest: "fst (populate w e data i newItemID
          [GraphqlBoardQuery (ITEM_NODE_ID e) (ORGANIZATION e) (PROJECT_NUMBER e),
           AddItemToProject (ITEM_NODE_ID e) (projectID i)]) =
          [GraphqlBoardQuery (ITEM_NODE_ID e) (ORGANIZATION e) (PROJECT_NUMBER e),
           AddItemToProject (ITEM_NODE_ID e) (projectID i)] @ rest"
        and sub: "subseq (List.map_filter boundary_of rest)
          [ContributorQuery, DocsTeamLookup, OrgMemberLookup, UpdateFields]"
        using populate_calls by blast
      from d i Inr rest have "List.map_filter boundary_of (fst (run w e [])) =
          [BoardQuery, AddItem] @ List.map_filter boundary_of rest"
        by (simp add: run_eq)
      with sub show ?thesis by simp
    qed
  qed
qed

lemma call_order:
  "subseq (List.map_filter boundary_of (fst (main w e)))
     [BoardQuery, AddItem, ContributorQuery, DocsTeamLookup, OrgMemberLookup, UpdateFields]"
proof (cases "run w e []")
  case (Pair tr r)
  with run_calls[of w e] have "subseq (List.map_filter boundary_of tr)
     [BoardQuery, AddItem, ContributorQuery, DocsTeamLookup, OrgMemberLookup, UpdateFields]"
    by simp
  with Pair show ?thesis
    by (cases r) (simp_all add: main_def map_filter_append)
qed

lemma update_position:
  assumes "GraphqlUpdate m v \<in> set (fst (main w e))"
  shows "\<exists>pre. AddItemToProject (ITEM_NODE_ID e) (v_project v) \<in> set pre \<and>
    fst (main w e) =
      pre @ [GraphqlUpdate m v,
             (case update_answer w m v of
                Inl err \<Rightarrow> ConsoleError err
              | Inr u \<Rightarrow> ConsoleLog ''Done populating fields for item'')] \<and>
    snd (main w e) = (case update_answer w m v of Inl err \<Rightarrow> 1 | Inr u \<Rightarrow> 0)"
proof -
  from update_event[OF assms(1)] obtain data i newItemID firstTime contributorType where
    f: "board_answer w (ITEM_NODE_ID e) (ORGANIZATION e) (PROJECT_NUMBER e) = Inr data"
    "lookup_ids data = Inr i"
    "add_item_answer w (ITEM_NODE_ID e) (projectID i) = Inr newItemID"
    "snd (firstTimeContributor w e []) = Inr firstTime"
    "snd (contributor_type w e i []) = Inr contributorType"
    "m = generateUpdateProjectV2ItemFieldMutation (now w) newItemID
          (if firstTime then Some ''first time contributor'' else AUTHOR_LOGIN e)
          (if REPO e = Some ''github/docs'' then 3 else 2)
          (fst (feature_and_size i (item data)))"
    "v = variables i contributorType (snd (feature_and_size i (item data)))"
    by blast
  let ?pre = "[GraphqlBoardQuery (ITEM_NODE_ID e) (ORGANIZATION e) (PROJECT_NUMBER e),
       AddItemToProject (ITEM_NODE_ID e) (projectID i)] @
     fst (firstTimeContributor w e []) @ fst (contributor_type w e i []) @
     [ConsoleLog (''Populating fields for item: '' @ newItemID)]"
  from f have "main w e =
      (?pre @ [GraphqlUpdate m v,
               (case update_answer w m v of
                  Inl err \<Rightarrow> ConsoleError err
                | Inr u \<Rightarrow> ConsoleLog ''Done populating fields for item'')],
       (case update_answer w m v of Inl err \<Rightarrow> 1 | Inr u \<Rightarrow> 0))"
    by (simp add: main_def run_eq populate_eq Let_def split: sum.splits)
  moreover from f(7) have "AddItemToProject (ITEM_NODE_ID e) (v_project v) \<in> set ?pre"
    by (simp add: variables_def)
  ultimately show ?thesis by (metis fst_conv snd_conv)
qed

lemma update_contents:
  assumes "GraphqlUpdate m v \<in> set (fst (main w e))"
  shows "\<exists>data i.
    board_answer w (ITEM_NODE_ID e) (ORGANIZATION e) (PROJECT_NUMBER e) = Inr data \<and>
    lookup_ids data = Inr i \<and>
    add_item_answer w (ITEM_NODE_ID e) (projectID i) = Inr (m_item m) \<and>
    v_project v = projectV2_id data \<and>
    findFieldID ''Status'' data = Inr (v_statusID v) \<and>
    findSingleSelectID ''Ready for review'' ''Status'' data = Inr (v_statusValueID v) \<and>
    findFieldID ''Date posted'' data = Inr (v_datePostedID v) \<and>
    m_datePosted m = now w \<and>
    findFieldID ''Review due date'' data = Inr (v_reviewDueDateID v) \<and>
    m_reviewDueDate m = now w + m_turnaround m \<and>
    m_turnaround m = (if REPO e = Some ''github/docs'' then 3 else 2) \<and>
    findFieldID ''Contributor type'' data = Inr (v_contributorTypeID v) \<and>
    snd (contributor_type w e i []) = Inr (v_contributorType v) \<and>
    findFieldID ''Size'' data = Inr (v_sizeTypeID v) \<and>
    v_sizeType v = snd (feature_and_size i (item data)) \<and>
    findFieldID ''Feature'' data = Inr (v_featureID v) \<and>
    m_feature m = fst (feature_and_size i (item data)) \<and>
    findFieldID ''Contributor'' data = Inr (v_authorID v) \<and>
    (\<exists>firstTime. snd (firstTimeContributor w e []) = Inr firstTime \<and>
       m_author m = (if firstTime then Some ''first time contributor'' else AUTHOR_LOGIN e))"
proof -
  from update_event[OF assms(1)] obtain data i newItemID firstTime contributorType where
    f: "board_answer w (ITEM_NODE_ID e) (ORGANIZATION e) (PROJECT_NUMBER e) = Inr data"
    "lookup_ids data = Inr i"
    "add_item_answer w (ITEM_NODE_ID e) (projectID i) = Inr newItemID"
    "snd (firstTimeContributor w e []) = Inr firstTime"
    "snd (contributor_type w e i []) = Inr contributorType"
    and m: "m = generateUpdateProjectV2ItemFieldMutation (now w) newItemID
          (if firstTime then Some ''first time contributor'' else AUTHOR_LOGIN e)
          (if REPO e = Some ''github/docs'' then 3 else 2)
          (fst (feature_and_size i (item data)))"
    and v: "v = variables i contributorType (snd (feature_and_size i (item data)))"
    by blast
  note n = lookup_ids_names[OF f(2)]
  have mm: "m_item m = newItemID" "m_datePosted m = now w"
    "m_reviewDueDate m = now w + m_turnaround m"
    "m_turnaround m = (if REPO e = Some ''github/docs'' then 3 else 2)"
    "m_feature m = fst (feature_and_size i (item data))"
    "m_author m = (if firstTime then Some ''first time contributor'' else AUTHOR_LOGIN e)"
    unfolding m by (simp_all add: generateUpdateProjectV2ItemFieldMutation_def)
  have vv: "v_project v = projectID i" "v_statusID v = statusID i"
    "v_statusValueID v = readyForReviewID i" "v_datePostedID v = datePostedID i"
    "v_reviewDueDateID v = reviewDueDateID i" "v_contributorTypeID v = contributorTypeID i"
    "v_contributorType v = contributorType" "v_sizeTypeID v = sizeTypeID i"
    "v_sizeType v = snd (feature_and_size i (item data))" "v_featureID v = featureID i"
    "v_authorID v = authorID i"
    unfolding v by (simp_all add: variables_def)
  show ?thesis
    using f n mm vv by auto
qed

text \<open>
  C8. In every run each boundary is crossed at most once and in the order of the script,
  so no call is repeated. An update is issued only after the add-item call for the same
  project has been issued and has answered with the new item, and it is the last call of the
  run: it is followed by the closing log line when it succeeds and by the error line, with
  exit status 1, when it fails; nothing takes the item off the board again. The one update
  sets status to \<^verbatim>\<open>Ready for review\<close>, date posted to now, review due date to now plus
  the turnaround, and contributor type, size, feature and contributor to the resolved
  values, each under the identifier of the field of that name.
\<close>

theorem mutation_sequence:
  "subseq (List.map_filter boundary_of (fst (main w e)))
     [BoardQuery, AddItem, ContributorQuery, DocsTeamLookup, OrgMemberLookup, UpdateFields] \<and>
   (\<forall>m v. GraphqlUpdate m v \<in> set (fst (main w e)) \<longrightarrow>
      (\<exists>pre. AddItemToProject (ITEM_NODE_ID e) (v_project v) \<in> set pre \<and>
         fst (main w e) =
           pre @ [GraphqlUpdate m v,
                  (case update_answer w m v of
                     Inl err \<Rightarrow> ConsoleError err
                   | Inr u \<Rightarrow> ConsoleLog ''Done populating fields for item'')] \<and>
         snd (main w e) = (case update_answer w m v of Inl err \<Rightarrow> 1 | Inr u \<Rightarrow> 0)) \<and>
      (\<exists>data i.
         board_answer w (ITEM_NODE_ID e) (ORGANIZATION e) (PROJECT_NUMBER e) = Inr data \<and>
         lookup_ids data = Inr i \<and>
         add_item_answer w (ITEM_NODE_ID e) (projectID i) = Inr (m_item m) \<and>
         v_project v = projectV2_id data \<and>
         findFieldID ''Status'' data = Inr (v_statusID v) \<and>
         findSingleSelectID ''Ready for review'' ''Status'' data = Inr (v_statusValueID v) \<and>
         findFieldID ''Date posted'' data = Inr (v_datePostedID v) \<and>
         m_datePosted m = now w \<and>
         findFieldID ''Review due date'' data = Inr (v_reviewDueDateID v) \<and>
         m_reviewDueDate m = now w + m_turnaround m \<and>
         m_turnaround m = (if REPO e = Some ''github/docs'' then 3 else 2) \<and>
         findFieldID ''Contributor type'' data = Inr (v_contributorTypeID v) \<and>
         snd (contributor_type w e i []) = Inr (v_contributorType v) \<and>
         findFieldID ''Size'' data = Inr (v_sizeTypeID v) \<and>
         v_sizeType v = snd (feature_and_size i (item data)) \<and>
         findFieldID ''Feature'' data = Inr (v_featureID v) \<and>
         m_feature m = fst (feature_and_size i (item data)) \<and>
         findFieldID ''Contributor'' data = Inr (v_authorID v) \<and>
         (\<exists>firstTime. snd (firstTimeContributor w e []) = Inr firstTime \<and>
            m_author m =
              (if firstTime then Some ''first time contributor'' else AUTHOR_LOGIN e))))"
  using call_order update_position update_contents by blast

theorem mutation_sequence_witness:
  "\<exists>m v pre.
     fst (main (sample_world \<lparr>typename = ''Issue'', files_nodes = []\<rparr>
                  \<lparr>update_answer := \<lambda>_ _. Inl (RequestError ''502'')\<rparr>)
            (sample_env (Some ''github/docs''))) =
       pre @ [GraphqlUpdate m v, ConsoleError (RequestError ''502'')] \<and>
     AddItemToProject (Some ''I1'') ''P1'' \<in> set pre \<and>
     snd (main (sample_world \<lparr>typename = ''Issue'', files_nodes = []\<rparr>
                  \<lparr>update_answer := \<lambda>_ _. Inl (RequestError ''502'')\<rparr>)
            (sample_env (Some ''github/docs''))) = 1 \<and>
     m_item m = ''N1'' \<and> m_datePosted m = 100 \<and> m_reviewDueDate m = 103"
proof -
  let ?w = "sample_world \<lparr>typename = ''Issue'', files_nodes = []\<rparr>
                  \<lparr>update_answer := \<lambda>_ _. Inl (RequestError ''502'')\<rparr>"
  let ?e = "sample_env (Some ''github/docs'')"
  obtain m v where u: "GraphqlUpdate m v \<in> set (fst (main ?w ?e))"
    by (simp add: run_simps Let_def)
  have w: "update_answer ?w m v = Inl (RequestError ''502'')" "now ?w = 100"
    "add_item_answer ?w a b = Inr ''N1''"
    "board_answer ?w a a' c = Inr (sample_board \<lparr>typename = ''Issue'', files_nodes = []\<rparr>)"
    for a a' b c
    by (simp_all add: sample_world_def)
  have e: "ITEM_NODE_ID ?e = Some ''I1''" "REPO ?e = Some ''github/docs''"
    by (simp_all add: sample_env_def)
  note ms = mutation_sequence[of ?w ?e, THEN conjunct2, rule_format, OF u]
  from ms[THEN conjunct1] obtain pre where pre:
    "AddItemToProject (ITEM_NODE_ID ?e) (v_project v) \<in> set pre"
    "fst (main ?w ?e) =
       pre @ [GraphqlUpdate m v,
              (case update_answer ?w m v of
                 Inl err \<Rightarrow> ConsoleError err
               | Inr u \<Rightarrow> ConsoleLog ''Done populating fields for item'')]"
    "snd (main ?w ?e) = (case update_answer ?w m v of Inl err \<Rightarrow> 1 | Inr u \<Rightarrow> 0)"
    by blast
  from ms[THEN conjunct2] have c:
    "v_project v = ''P1'' \<and> m_item m = ''N1'' \<and> m_datePosted m = 100 \<and>
     m_reviewDueDate m = 103"
    by (clarsimp simp: sample_world_def sample_env_def sample_board_def)
  then have p: "v_project v = ''P1''" and n: "m_item m = ''N1''"
    and t: "m_datePosted m = 100" "m_reviewDueDate m = 103"
    by simp_all
  from pre have "AddItemToProject (Some ''I1'') ''P1'' \<in> set pre"
    and "fst (main ?w ?e) = pre @ [GraphqlUpdate m v, ConsoleError (RequestError ''502'')]"
    and "snd (main ?w ?e) = 1"
    by (simp_all add: w e p)
  with n t show ?thesis by blast
qed

end
